theory Spec2Isabelle
  imports Complex_Main "HOL-Library.Sublist" "HOL-Library.Multiset"
    "HOL-Library.List_Lexorder" "HOL-Library.Char_ord" "HOL-Library.Product_Lexorder"
begin

section \<open>Superstore sales dashboard (project21.py)\<close>

text \<open>
  The script loads a CSV file into a data frame, filters it by the Region and Category
  values picked in two sidebar widgets, and shows three key figures, two charts and the
  filtered table. The embedding follows the script from top to bottom. The calls into the
  page framework are modelled by the list of page elements they emit, \<open>st.stop()\<close> and an
  uncaught exception by ending that list.

  The data-frame library is not part of the script. Its selections of rows are modelled by
  list functions. Its interpretation of text and its arithmetic are parameters of the
  model: \<open>to_datetime\<close> for the conversion of the Order Date column, \<open>series_sum\<close> and
  \<open>series_mean\<close> for \<open>Series.sum()\<close> and \<open>Series.mean()\<close>, \<open>group_sum\<close> for the sum of one
  group of a \<open>groupby\<close>. What is proved holds for whatever these functions return, so for
  the rounding of binary floating point, for the wrap-around of an integer column and for
  the skipping of missing cells alike.
\<close>

subsection \<open>Data model\<close>

text \<open>
  A value of a numeric column or the result of a reduction: a number, an infinity or NaN
  (a missing cell). A number is given by its exact value.
\<close>

datatype float64 = Finite rat | PosInf | NegInf | NaN

text \<open>
  One line of the CSV file. Only the columns the script reads are named; any further
  column travels in the record's extension. A cell of a text column is \<open>None\<close> when the
  file leaves it empty or marks it as not available. The Order Date cell is a string as
  read from the file and an optional timestamp after the conversion (\<open>None\<close> is the
  library's NaT).
\<close>

record 'c row =
  Region :: "string option"
  Category :: "string option"
  Sub_Category :: "string option"
  Order_Date :: 'c
  Sales :: float64
  Profit :: float64

text \<open>
  A data frame is the list of its rows, each with its index label. The labels are given
  once by \<open>read_csv\<close> and kept by every later selection of rows.
\<close>

type_synonym ('c, 'z) frame = "(nat \<times> ('c, 'z) row_scheme) list"

text \<open>
  What reading the file does for a path: \<open>pd.read_csv\<close> raises FileNotFoundError, or
  some other exception is raised inside the \<open>try\<close> block (kept with its message), or the
  lines of the file are parsed.
\<close>

datatype 'z read_result =
  FileNotFoundError
| Exception string
| Parsed "(string, 'z) row_scheme list"

text \<open>What \<open>int\<close> raises for a float that is not a number.\<close>

datatype py_error = ValueError | OverflowError

text \<open>
  The elements the script puts on the page, in the order of the calls. \<open>Traceback\<close> is
  what the framework shows for an exception the script does not catch.
\<close>

datatype ('c, 'z) element =
  PageConfig
| Error string
| Warning string
| Style
| SidebarHeader string
| Multiselect string "string option list" "string option list"
| Title string
| Markdown string
| MetricInt string int
| MetricFloat string float64
| Header string
| BarChart "(string \<times> float64) list"
| PieChart "(string \<times> float64) list" "rat list"
| Expander string "('c, 'z) frame"
| Traceback py_error

subsection \<open>Data loading\<close>

definition read_csv :: "(string \<Rightarrow> 'z read_result) \<Rightarrow> string \<Rightarrow> 'z read_result" where
  "read_csv fs path = fs path"

text \<open>
  \<open>df['Order Date'] = pd.to_datetime(df['Order Date'], format='%m/%d/%Y', errors='coerce')\<close>:
  every cell of the column is replaced by its parse result, a failed parse by NaT. The
  parser of the library is the parameter \<open>to_datetime\<close>.
\<close>

definition coerce_row ::
    "(string \<Rightarrow> 'd option) \<Rightarrow> (string, 'z) row_scheme \<Rightarrow> ('d option, 'z) row_scheme" where
  "coerce_row to_datetime r =
     \<lparr>Region = Region r, Category = Category r, Sub_Category = Sub_Category r,
      Order_Date = to_datetime (Order_Date r), Sales = Sales r, Profit = Profit r,
      \<dots> = row.more r\<rparr>"

definition convert_dates ::
    "(string \<Rightarrow> 'd option) \<Rightarrow> (string, 'z) frame \<Rightarrow> ('d option, 'z) frame" where
  "convert_dates to_datetime df = map (\<lambda>(i, r). (i, coerce_row to_datetime r)) df"

text \<open>\<open>df.dropna(subset=['Order Date'], inplace=True)\<close>\<close>

definition dropna :: "('d option, 'z) frame \<Rightarrow> ('d option, 'z) frame" where
  "dropna df = filter (\<lambda>(i, r). Order_Date r \<noteq> None) df"

text \<open>The frame \<open>read_csv\<close> returns: the lines of the file labelled 0, 1, 2, ...\<close>

definition range_index :: "(string, 'z) row_scheme list \<Rightarrow> (string, 'z) frame" where
  "range_index rows = zip [0..<length rows] rows"

definition not_found_message :: "string \<Rightarrow> string" where
  "not_found_message path =
     ''Error: The file '' @ [CHR 0x27] @ path @ [CHR 0x27] @
     '' was not found. Please make sure it is in the same folder as the script.''"

definition load_error_message :: "string \<Rightarrow> string" where
  "load_error_message e = ''An error occurred while loading the data: '' @ e"

text \<open>
  \<open>load_data\<close> returns the elements it emitted (the \<open>st.error\<close> calls) and the frame, or
  \<open>None\<close>. The cache decorator only saves reading the file again and is left out.
\<close>

definition load_data ::
    "(string \<Rightarrow> 'd option) \<Rightarrow> (string \<Rightarrow> 'z read_result) \<Rightarrow> string
     \<Rightarrow> ('d option, 'z) element list \<times> ('d option, 'z) frame option" where
  "load_data to_datetime fs path =
     (case read_csv fs path of
        Parsed rows \<Rightarrow> ([], Some (dropna (convert_dates to_datetime (range_index rows))))
      | FileNotFoundError \<Rightarrow> ([Error (not_found_message path)], None)
      | Exception e \<Rightarrow> ([Error (load_error_message e)], None))"

subsection \<open>Sidebar filters\<close>

text \<open>\<open>Series.unique()\<close>: the distinct values in the order of their first appearance.\<close>

fun unique :: "'a list \<Rightarrow> 'a list" where
  "unique [] = []"
| "unique (x # xs) = x # unique (filter (\<lambda>y. y \<noteq> x) xs)"

text \<open>
  A multiselect widget shows its default selection until the user changes it. The user's
  input is \<open>None\<close> on the first render and the chosen values afterwards.
\<close>

definition multiselect ::
    "string option list \<Rightarrow> string option list \<Rightarrow> string option list option
     \<Rightarrow> string option list" where
  "multiselect options preset input = (case input of None \<Rightarrow> preset | Some chosen \<Rightarrow> chosen)"

text \<open>
  \<open>df.query("Region == @region & Category == @category")\<close>: comparing a column with a
  list tests membership, and \<open>&\<close> binds like \<open>and\<close>. A missing cell is a member of a list
  that holds the missing value.
\<close>

definition isin :: "string option \<Rightarrow> string option list \<Rightarrow> bool" where
  "isin v vals = (v \<in> set vals)"

definition df_selection ::
    "('c, 'z) frame \<Rightarrow> string option list \<Rightarrow> string option list \<Rightarrow> ('c, 'z) frame" where
  "df_selection df region category =
     filter (\<lambda>(i, r). isin (Region r) region \<and> isin (Category r) category) df"

subsection \<open>Key figures\<close>

text \<open>Cutting off the fractional part of a number, towards zero.\<close>

definition truncate :: "rat \<Rightarrow> int" where
  "truncate x = (if 0 \<le> x then \<lfloor>x\<rfloor> else \<lceil>x\<rceil>)"

text \<open>
  Python's \<open>int\<close> of a float: a number is truncated, NaN raises ValueError and an
  infinity raises OverflowError.
\<close>

fun py_int :: "float64 \<Rightarrow> py_error + int" where
  "py_int (Finite x) = Inr (truncate x)"
| "py_int NaN = Inl ValueError"
| "py_int PosInf = Inl OverflowError"
| "py_int NegInf = Inl OverflowError"

text \<open>
  Rounding to the nearest integer, a tie to the even one, and \<open>round(x, 2)\<close>, which
  leaves an infinity and NaN as they are. The result is the hundredth itself, which is
  what the page prints; the float the script holds is the one next to it.
\<close>

definition rint :: "rat \<Rightarrow> int" where
  "rint x =
     (let f = \<lfloor>x\<rfloor>; d = x - of_int f
      in if d < 1 / 2 then f else if 1 / 2 < d then f + 1 else if even f then f else f + 1)"

definition round2 :: "rat \<Rightarrow> rat" where
  "round2 x = of_int (rint (x * 100)) / 100"

fun py_round2 :: "float64 \<Rightarrow> float64" where
  "py_round2 (Finite x) = Finite (round2 x)"
| "py_round2 v = v"

definition column :: "(('c, 'z) row_scheme \<Rightarrow> 'a) \<Rightarrow> ('c, 'z) frame \<Rightarrow> 'a list" where
  "column col df = map (\<lambda>(i, r). col r) df"

text \<open>
  Lines 99 to 101. \<open>series_sum\<close> and \<open>series_mean\<close> are the library's \<open>Series.sum()\<close> and
  \<open>Series.mean()\<close>.
\<close>

definition total_sales ::
    "(float64 list \<Rightarrow> float64) \<Rightarrow> ('c, 'z) frame \<Rightarrow> py_error + int" where
  "total_sales series_sum df = py_int (series_sum (column Sales df))"

definition total_profit ::
    "(float64 list \<Rightarrow> float64) \<Rightarrow> ('c, 'z) frame \<Rightarrow> py_error + int" where
  "total_profit series_sum df = py_int (series_sum (column Profit df))"

definition average_sale ::
    "(float64 list \<Rightarrow> float64) \<Rightarrow> ('c, 'z) frame \<Rightarrow> float64" where
  "average_sale series_mean df = py_round2 (series_mean (column Sales df))"

subsection \<open>Charts\<close>

text \<open>The keys of a \<open>groupby\<close>: a row whose key cell is missing belongs to no group.\<close>

fun present :: "'a option list \<Rightarrow> 'a list" where
  "present [] = []"
| "present (None # xs) = present xs"
| "present (Some x # xs) = x # present xs"

text \<open>
  \<open>df.groupby(by=[key])['Sales'].sum()\<close>: one entry per distinct key that is not missing,
  in ascending order of the keys, with the library's sum \<open>group_sum\<close> of the Sales of the
  rows that have the key.
\<close>

definition groupby_sum ::
    "(float64 list \<Rightarrow> float64) \<Rightarrow> (('c, 'z) row_scheme \<Rightarrow> string option) \<Rightarrow> ('c, 'z) frame
     \<Rightarrow> (string \<times> float64) list" where
  "groupby_sum group_sum key df =
     map (\<lambda>k. (k, group_sum (column Sales (filter (\<lambda>(i, r). key r = Some k) df))))
       (sort (remdups (present (column key df))))"

text \<open>
  The place of a value in \<open>Series.sort_values(ascending=True)\<close>: the numbers in their
  order between the two infinities, NaN last. The library does not promise an order among
  equal values; the model keeps them in their order.
\<close>

fun sort_rank :: "float64 \<Rightarrow> nat \<times> rat" where
  "sort_rank NegInf = (0, 0)"
| "sort_rank (Finite x) = (1, x)"
| "sort_rank PosInf = (2, 0)"
| "sort_rank NaN = (3, 0)"

definition sort_values :: "(string \<times> float64) list \<Rightarrow> (string \<times> float64) list" where
  "sort_values s = sort_key (\<lambda>(k, v). sort_rank v) s"

definition sales_by_subcategory ::
    "(float64 list \<Rightarrow> float64) \<Rightarrow> ('c, 'z) frame \<Rightarrow> (string \<times> float64) list" where
  "sales_by_subcategory group_sum df = sort_values (groupby_sum group_sum Sub_Category df)"

definition sales_by_region ::
    "(float64 list \<Rightarrow> float64) \<Rightarrow> ('c, 'z) frame \<Rightarrow> (string \<times> float64) list" where
  "sales_by_region group_sum df = groupby_sum group_sum Region df"

subsection \<open>The page\<close>

text \<open>
  Lines 120 to 161, reached when both totals have been computed. The styling of the
  charts is left out.
\<close>

definition charts_and_table ::
    "(float64 list \<Rightarrow> float64) \<Rightarrow> ('c, 'z) frame \<Rightarrow> ('c, 'z) element list" where
  "charts_and_table group_sum sel =
     [Header ''Charts & Analysis'',
      BarChart (sales_by_subcategory group_sum sel),
      PieChart (sales_by_region group_sum sel)
        (replicate (length (sales_by_region group_sum sel)) (1 / 20)),
      Expander ''View Raw Data Table'' sel]"

text \<open>
  Everything below the empty-selection check. An exception of \<open>int\<close> at line 99 or 100
  ends the run after the title. The formatting of the figures as currency strings and the
  pictograph in front of the title are left out.
\<close>

definition main_page ::
    "(float64 list \<Rightarrow> float64) \<Rightarrow> (float64 list \<Rightarrow> float64) \<Rightarrow> (float64 list \<Rightarrow> float64)
     \<Rightarrow> ('c, 'z) frame \<Rightarrow> ('c, 'z) element list" where
  "main_page series_sum series_mean group_sum sel =
     [Title ''Superstore Sales Dashboard'', Markdown ''##''] @
     (case total_sales series_sum sel of
        Inl e \<Rightarrow> [Traceback e]
      | Inr sales \<Rightarrow>
         (case total_profit series_sum sel of
            Inl e \<Rightarrow> [Traceback e]
          | Inr profit \<Rightarrow>
             [MetricInt ''Total Sales'' sales,
              MetricInt ''Total Profit'' profit,
              MetricFloat ''Average Sale Value'' (average_sale series_mean sel),
              Markdown ''---'']
             @ charts_and_table group_sum sel))"

definition empty_warning :: string where
  "empty_warning = ''No data available for the selected filters. Please adjust your selection.''"

text \<open>From the style sheet to the end of the script, for a loaded frame.\<close>

definition dashboard ::
    "(float64 list \<Rightarrow> float64) \<Rightarrow> (float64 list \<Rightarrow> float64) \<Rightarrow> (float64 list \<Rightarrow> float64)
     \<Rightarrow> ('c, 'z) frame \<Rightarrow> string option list option \<Rightarrow> string option list option
     \<Rightarrow> ('c, 'z) element list" where
  "dashboard series_sum series_mean group_sum df region_input category_input =
     (let regions = unique (column Region df);
          region = multiselect regions regions region_input;
          categories = unique (column Category df);
          category = multiselect categories categories category_input;
          sel = df_selection df region category
      in [Style,
          SidebarHeader ''Dashboard Filters'',
          Multiselect ''Select Region:'' regions regions,
          Multiselect ''Select Category:'' categories categories]
         @ (if sel = [] then [Warning empty_warning]
            else main_page series_sum series_mean group_sum sel))"

text \<open>One run of the script.\<close>

definition render ::
    "(string \<Rightarrow> 'd option)
     \<Rightarrow> (float64 list \<Rightarrow> float64) \<Rightarrow> (float64 list \<Rightarrow> float64) \<Rightarrow> (float64 list \<Rightarrow> float64)
     \<Rightarrow> (string \<Rightarrow> 'z read_result)
     \<Rightarrow> string option list option \<Rightarrow> string option list option
     \<Rightarrow> ('d option, 'z) element list" where
  "render to_datetime series_sum series_mean group_sum fs region_input category_input =
     PageConfig #
     (case load_data to_datetime fs ''superstore_sales.csv'' of
        (shown, None) \<Rightarrow> shown
      | (shown, Some df) \<Rightarrow>
          shown @ dashboard series_sum series_mean group_sum df region_input category_input)"

subsection \<open>Comparison of float values and exact sums\<close>

text \<open>The comparison \<open>\<le>\<close> of two float values: NaN compares with nothing.\<close>

fun fle :: "float64 \<Rightarrow> float64 \<Rightarrow> bool" where
  "fle NaN v = False"
| "fle v NaN = False"
| "fle NegInf v = True"
| "fle v PosInf = True"
| "fle (Finite x) (Finite y) = (x \<le> y)"
| "fle v w = False"

fun is_finite :: "float64 \<Rightarrow> bool" where
  "is_finite (Finite x) = True"
| "is_finite v = False"

text \<open>The number a cell holds; a cell that holds none adds nothing to a sum.\<close>

fun amount :: "float64 \<Rightarrow> rat" where
  "amount (Finite x) = x"
| "amount v = 0"

text \<open>
  A reduction of the library is exact on a column when every cell holds a number and the
  result is their mathematical sum: no cell is missing or infinite, no addition was
  rounded and nothing wrapped around.
\<close>

definition exact_on :: "(float64 list \<Rightarrow> float64) \<Rightarrow> float64 list \<Rightarrow> bool" where
  "exact_on reduce xs = (list_all is_finite xs \<and> reduce xs = Finite (sum_list (map amount xs)))"

subsection \<open>A sample library, a reading of the date format, and sample data\<close>

text \<open>
  The results below hold for whatever the library's functions return. Concrete runs need
  concrete functions. The sample reductions skip missing cells, follow the rules for
  infinities and add without rounding, which is what float64 does on the sample amounts.
\<close>

definition nansum :: "float64 list \<Rightarrow> float64" where
  "nansum xs =
     (if PosInf \<in> set xs \<and> NegInf \<in> set xs then NaN
      else if PosInf \<in> set xs then PosInf
      else if NegInf \<in> set xs then NegInf
      else Finite (sum_list (map amount xs)))"

definition nanmean :: "float64 list \<Rightarrow> float64" where
  "nanmean xs =
     (let ys = filter (\<lambda>v. v \<noteq> NaN) xs
      in if ys = [] then NaN
         else (case nansum ys of Finite s \<Rightarrow> Finite (s / of_nat (length ys)) | v \<Rightarrow> v))"

text \<open>
  The sample parser for \<open>%m/%d/%Y\<close>: a month of one or two digits, a day of one or two
  digits or of a space and a digit, a year of four digits, separated by slashes, together
  a date of the calendar that a nanosecond timestamp can hold.
\<close>

definition is_digit :: "char \<Rightarrow> bool" where
  "is_digit c = (CHR ''0'' \<le> c \<and> c \<le> CHR ''9'')"

definition digits_value :: "string \<Rightarrow> nat" where
  "digits_value ds = foldl (\<lambda>n c. 10 * n + (of_char c - 48)) 0 ds"

fun split_at :: "char \<Rightarrow> string \<Rightarrow> string list" where
  "split_at sep [] = [[]]"
| "split_at sep (c # cs) =
     (if c = sep then [] # split_at sep cs
      else (case split_at sep cs of [] \<Rightarrow> [[c]] | f # fs \<Rightarrow> (c # f) # fs))"

definition leap_year :: "nat \<Rightarrow> bool" where
  "leap_year y = (y mod 4 = 0 \<and> (y mod 100 \<noteq> 0 \<or> y mod 400 = 0))"

definition days_in_month :: "nat \<Rightarrow> nat \<Rightarrow> nat" where
  "days_in_month y m =
     (if m = 2 then (if leap_year y then 29 else 28)
      else if m = 4 \<or> m = 6 \<or> m = 9 \<or> m = 11 then 30 else 31)"

definition short_field :: "string \<Rightarrow> bool" where
  "short_field f = ((length f = 1 \<or> length f = 2) \<and> list_all is_digit f)"

definition day_field :: "string \<Rightarrow> bool" where
  "day_field f = (short_field f \<or> (case f of [p, c] \<Rightarrow> p = CHR 0x20 \<and> is_digit c | _ \<Rightarrow> False))"

definition in_timestamp_range :: "nat \<Rightarrow> nat \<Rightarrow> nat \<Rightarrow> bool" where
  "in_timestamp_range y m d =
     ((1677 < y \<or> (y = 1677 \<and> (9 < m \<or> (m = 9 \<and> 22 \<le> d))))
      \<and> (y < 2262 \<or> (y = 2262 \<and> (m < 4 \<or> (m = 4 \<and> d \<le> 11)))))"

definition strptime_mdY :: "string \<Rightarrow> (nat \<times> nat \<times> nat) option" where
  "strptime_mdY s =
     (case split_at CHR ''/'' s of
        [mf, df, yf] \<Rightarrow>
          (let m = digits_value mf;
               d = digits_value (filter is_digit df);
               y = digits_value yf
           in if short_field mf \<and> day_field df \<and> length yf = 4 \<and> list_all is_digit yf
                 \<and> 1 \<le> m \<and> m \<le> 12 \<and> 1 \<le> d \<and> d \<le> days_in_month y m
                 \<and> in_timestamp_range y m d
              then Some (y, m, d) else None)
      | _ \<Rightarrow> None)"

definition sample_rows :: "string row list" where
  "sample_rows =
     [\<lparr>Region = Some ''East'', Category = Some ''Furniture'', Sub_Category = Some ''Chairs'',
       Order_Date = ''01/01/2020'', Sales = Finite 100, Profit = Finite 10\<rparr>,
      \<lparr>Region = Some ''West'', Category = Some ''Office'', Sub_Category = Some ''Paper'',
       Order_Date = ''2020-02-02'', Sales = Finite 7, Profit = Finite 1\<rparr>,
      \<lparr>Region = Some ''West'', Category = Some ''Office'', Sub_Category = Some ''Paper'',
       Order_Date = ''02/02/2020'', Sales = Finite 50, Profit = Finite 5\<rparr>,
      \<lparr>Region = Some ''East'', Category = Some ''Office'', Sub_Category = Some ''Binders'',
       Order_Date = ''02/30/2020'', Sales = Finite 3, Profit = Finite 2\<rparr>,
      \<lparr>Region = Some ''South'', Category = Some ''Furniture'', Sub_Category = Some ''Tables'',
       Order_Date = ''11/5/2021'', Sales = Finite (81 / 2), Profit = Finite (- 12)\<rparr>]"

definition sample_fs :: "string \<Rightarrow> unit read_result" where
  "sample_fs path = (if path = ''superstore_sales.csv'' then Parsed sample_rows else FileNotFoundError)"

definition missing_fs :: "string \<Rightarrow> unit read_result" where
  "missing_fs path = FileNotFoundError"

definition broken_fs :: "string \<Rightarrow> unit read_result" where
  "broken_fs path = Exception ''Error tokenizing data''"

definition sample_df :: "((nat \<times> nat \<times> nat) option, unit) frame" where
  "sample_df = dropna (convert_dates strptime_mdY (range_index sample_rows))"

text \<open>A file with a refund: a line whose Sales and Profit are negative.\<close>

definition refund_rows :: "string row list" where
  "refund_rows =
     [\<lparr>Region = Some ''East'', Category = Some ''Furniture'', Sub_Category = Some ''Chairs'',
       Order_Date = ''01/01/2020'', Sales = Finite 100, Profit = Finite 10\<rparr>,
      \<lparr>Region = Some ''South'', Category = Some ''Furniture'', Sub_Category = Some ''Tables'',
       Order_Date = ''03/15/2020'', Sales = Finite (- 25), Profit = Finite (- 12)\<rparr>]"

definition refund_df :: "((nat \<times> nat \<times> nat) option, unit) frame" where
  "refund_df = dropna (convert_dates strptime_mdY (range_index refund_rows))"



subsection \<open>The specification's wording of the key figures\<close>



subsection \<open>Auxiliary facts\<close>

lemmas parser_defs = strptime_mdY_def short_field_def day_field_def is_digit_def
  digits_value_def days_in_month_def leap_year_def in_timestamp_range_def

lemma sample_dates:
  "strptime_mdY ''01/01/2020'' = Some (2020, 1, 1)"
  "strptime_mdY ''2020-02-02'' = None"
  "strptime_mdY ''02/02/2020'' = Some (2020, 2, 2)"
  "strptime_mdY ''02/30/2020'' = None"
  "strptime_mdY ''11/5/2021'' = Some (2021, 11, 5)"
  "strptime_mdY ''03/15/2020'' = Some (2020, 3, 15)"
  by (simp_all add: parser_defs)

lemmas load_defs = range_index_def convert_dates_def coerce_row_def dropna_def sample_dates
  upt_rec [of 0] upt_rec [of 1] upt_rec [of 2] upt_rec [of 3] upt_rec [of 4]

lemma sample_df_value:
  "sample_df =
     [(0, \<lparr>Region = Some ''East'', Category = Some ''Furniture'', Sub_Category = Some ''Chairs'',
           Order_Date = Some (2020, 1, 1), Sales = Finite 100, Profit = Finite 10\<rparr>),
      (2, \<lparr>Region = Some ''West'', Category = Some ''Office'', Sub_Category = Some ''Paper'',
           Order_Date = Some (2020, 2, 2), Sales = Finite 50, Profit = Finite 5\<rparr>),
      (4, \<lparr>Region = Some ''South'', Category = Some ''Furniture'', Sub_Category = Some ''Tables'',
           Order_Date = Some (2021, 11, 5), Sales = Finite (81 / 2), Profit = Finite (- 12)\<rparr>)]"
  by (simp add: sample_df_def sample_rows_def load_defs)

lemma refund_df_value:
  "refund_df =
     [(0, \<lparr>Region = Some ''East'', Category = Some ''Furniture'', Sub_Category = Some ''Chairs'',
           Order_Date = Some (2020, 1, 1), Sales = Finite 100, Profit = Finite 10\<rparr>),
      (1, \<lparr>Region = Some ''South'', Category = Some ''Furniture'', Sub_Category = Some ''Tables'',
           Order_Date = Some (2020, 3, 15), Sales = Finite (- 25), Profit = Finite (- 12)\<rparr>)]"
  by (simp add: refund_df_def refund_rows_def load_defs)


lemma set_unique: "set (unique xs) = set xs"
  by (induction xs rule: unique.induct) auto

lemma set_present: "set (present xs) = {k. Some k \<in> set xs}"
  by (induction xs rule: present.induct) auto

lemma range_index_map: "range_index rows = map (\<lambda>i. (i, rows ! i)) [0..<length rows]"
  unfolding range_index_def by (rule nth_equalityI) simp_all

lemma loaded_frame:
  "dropna (convert_dates p (range_index rows)) =
     map (\<lambda>i. (i, coerce_row p (rows ! i)))
       (filter (\<lambda>i. p (Order_Date (rows ! i)) \<noteq> None) [0..<length rows])"
proof -
  have c: "convert_dates p (range_index rows) =
      map (\<lambda>i. (i, coerce_row p (rows ! i))) [0..<length rows]"
    unfolding range_index_map convert_dates_def by simp
  have o: "\<And>i. Order_Date (coerce_row p (rows ! i)) = p (Order_Date (rows ! i))"
    by (simp add: coerce_row_def)
  show ?thesis
    unfolding c dropna_def filter_map by (simp add: comp_def o)
qed

lemma loaded_labels:
  "map fst (dropna (convert_dates p (range_index rows))) =
     filter (\<lambda>i. p (Order_Date (rows ! i)) \<noteq> None) [0..<length rows]"
  unfolding loaded_frame by (simp add: comp_def)

lemma loaded_row:
  assumes "(i, r) \<in> set (dropna (convert_dates p (range_index rows)))"
  shows "i < length rows \<and> r = coerce_row p (rows ! i) \<and> p (Order_Date (rows ! i)) \<noteq> None"
  using assms unfolding loaded_frame by auto

lemma distinct_loaded: "distinct (map fst (dropna (convert_dates p (range_index rows))))"
  unfolding loaded_labels by simp

lemma length_good_rows:
  "length (filter (\<lambda>i. P (rows ! i)) [0..<length rows]) = length (filter P rows)"
proof -
  have "filter P rows = filter P (map (\<lambda>i. rows ! i) [0..<length rows])"
    by (simp only: map_nth)
  also have "\<dots> = map (\<lambda>i. rows ! i) (filter (\<lambda>i. P (rows ! i)) [0..<length rows])"
    unfolding filter_map by (simp only: comp_def)
  finally show ?thesis by simp
qed

lemma truncate_mono:
  assumes "x \<le> y"
  shows "truncate x \<le> truncate y"
proof (cases "0 \<le> x")
  case True
  then have "0 \<le> y" using assms by simp
  with True assms show ?thesis by (simp add: truncate_def floor_mono)
next
  case False
  show ?thesis
  proof (cases "0 \<le> y")
    case True
    have a: "\<lceil>x\<rceil> \<le> 0" using False by simp
    have b: "0 \<le> \<lfloor>y\<rfloor>" using True by simp
    have "\<lceil>x\<rceil> \<le> \<lfloor>y\<rfloor>" by (rule order_trans [OF a b])
    then show ?thesis using False True by (simp add: truncate_def)
  next
    case ny: False
    with False assms show ?thesis by (simp add: truncate_def ceiling_mono)
  qed
qed




lemma sum_list_filter_mono:
  fixes f :: "'a \<Rightarrow> rat"
  assumes "\<And>x. x \<in> set xs \<Longrightarrow> P x \<Longrightarrow> Q x"
    and "\<And>x. x \<in> set xs \<Longrightarrow> Q x \<Longrightarrow> 0 \<le> f x"
  shows "sum_list (map f (filter P xs)) \<le> sum_list (map f (filter Q xs))"
  using assms
proof (induction xs)
  case Nil
  then show ?case by simp
next
  case (Cons x xs)
  have ih: "sum_list (map f (filter P xs)) \<le> sum_list (map f (filter Q xs))"
    using Cons by simp
  show ?case
  proof (cases "Q x")
    case True
    then have "0 \<le> f x" using Cons.prems(2) by simp
    with True ih show ?thesis by (cases "P x") auto
  next
    case False
    then have "\<not> P x" using Cons.prems(1) by auto
    with False ih show ?thesis by simp
  qed
qed

lemma sum_list_delta:
  fixes v :: rat
  assumes "distinct ks" and "k \<in> set ks"
  shows "sum_list (map (\<lambda>k'. if k = k' then v else 0) ks) = v"
  using assms
proof (induction ks)
  case Nil
  then show ?case by simp
next
  case (Cons a ks)
  have z: "k \<notin> set ks \<Longrightarrow> sum_list (map (\<lambda>k'. if k = k' then v else 0) ks) = 0"
    by (induction ks) auto
  show ?case
  proof (cases "k = a")
    case True
    then have "k \<notin> set ks" using Cons.prems by simp
    with True z show ?thesis by simp
  next
    case False
    with Cons show ?thesis by simp
  qed
qed

lemma sum_groups:
  fixes f :: "'a \<Rightarrow> rat"
  assumes "distinct ks" and "g ` set xs \<subseteq> set ks"
  shows "sum_list (map (\<lambda>k. sum_list (map f (filter (\<lambda>x. g x = k) xs))) ks) = sum_list (map f xs)"
  using assms(2)
proof (induction xs)
  case Nil
  then show ?case by simp
next
  case (Cons x xs)
  have in_ks: "g x \<in> set ks" using Cons.prems by simp
  have ih: "sum_list (map (\<lambda>k. sum_list (map f (filter (\<lambda>x. g x = k) xs))) ks) = sum_list (map f xs)"
    using Cons by simp
  have "sum_list (map (\<lambda>k. sum_list (map f (filter (\<lambda>x. g x = k) (x # xs)))) ks) =
        sum_list (map (\<lambda>k. (if g x = k then f x else 0)
                             + sum_list (map f (filter (\<lambda>x. g x = k) xs))) ks)"
    by (rule arg_cong [where f = sum_list]) (rule map_cong, simp_all)
  also have "\<dots> = sum_list (map (\<lambda>k. if g x = k then f x else 0) ks)
                   + sum_list (map (\<lambda>k. sum_list (map f (filter (\<lambda>x. g x = k) xs))) ks)"
    by (rule sum_list_addf)
  also have "\<dots> = f x + sum_list (map f xs)"
    by (simp only: sum_list_delta [OF assms(1) in_ks] ih)
  finally show ?case by simp
qed

text \<open>The group sums of a frame in which no key is missing add up to the whole.\<close>

lemma group_amounts_total:
  assumes "\<forall>(i, r) \<in> set df. key r \<noteq> None"
  shows "sum_list (map (\<lambda>k. sum_list (map amount (column Sales (filter (\<lambda>(i, r). key r = Some k) df))))
            (sort (remdups (present (column key df)))))
         = sum_list (map amount (column Sales df))"
proof -
  let ?ks = "map Some (sort (remdups (present (column key df))))"
  have d: "distinct ?ks" by (simp add: distinct_map)
  have s: "(\<lambda>x. key (snd x)) ` set df \<subseteq> set ?ks"
  proof
    fix k assume "k \<in> (\<lambda>x. key (snd x)) ` set df"
    then obtain i r where m: "(i, r) \<in> set df" and k: "k = key r" by auto
    from m assms have "key r \<noteq> None" by auto
    then obtain k' where k': "key r = Some k'" by auto
    with m have "Some k' \<in> set (column key df)" by (force simp: column_def)
    then have "k' \<in> set (present (column key df))" by (simp add: set_present)
    with k k' show "k \<in> set ?ks" by simp
  qed
  have "sum_list (map (\<lambda>k. sum_list (map (\<lambda>x. amount (Sales (snd x))) (filter (\<lambda>x. key (snd x) = k) df))) ?ks)
        = sum_list (map (\<lambda>x. amount (Sales (snd x))) df)"
    by (rule sum_groups [OF d s])
  then show ?thesis
    by (simp add: column_def comp_def case_prod_unfold)
qed



lemma nansum_exact: "list_all is_finite xs \<Longrightarrow> exact_on nansum xs"
proof -
  assume a: "list_all is_finite xs"
  then have "PosInf \<notin> set xs" and "NegInf \<notin> set xs"
    by (auto simp: list_all_iff)
  with a show ?thesis by (simp add: exact_on_def nansum_def)
qed


lemma truncate_values:
  "truncate (381 / 2) = 190"
  "truncate 3 = 3"
  "truncate 10 = 10"
  "truncate 15 = 15"
  "truncate (- 2) = - 2"
  "truncate 100 = 100"
  "truncate 150 = 150"
  "truncate 75 = 75"
  "round2 (127 / 2) = 127 / 2"
  by code_simp+

lemma sample_views:
  "df_selection sample_df [Some ''East''] [Some ''Furniture''] = [sample_df ! 0]"
  "df_selection sample_df [Some ''East'', Some ''South''] [Some ''Furniture'']
     = [sample_df ! 0, sample_df ! 2]"
  "df_selection sample_df [Some ''East'', Some ''West''] [Some ''Furniture'', Some ''Office'']
     = [sample_df ! 0, sample_df ! 1]"
  "df_selection sample_df [Some ''East'', Some ''West'', Some ''South'']
     [Some ''Furniture'', Some ''Office''] = sample_df"
  by (simp_all add: sample_df_value df_selection_def isin_def)

lemma refund_views:
  "df_selection refund_df [Some ''East''] [Some ''Furniture''] = [refund_df ! 0]"
  "df_selection refund_df [Some ''East'', Some ''South''] [Some ''Furniture''] = refund_df"
  by (simp_all add: refund_df_value df_selection_def isin_def)

lemma sample_columns:
  "column Sales sample_df = [Finite 100, Finite 50, Finite (81 / 2)]"
  "column Profit sample_df = [Finite 10, Finite 5, Finite (- 12)]"
  "column Sales [sample_df ! 0] = [Finite 100]"
  "column Profit [sample_df ! 0] = [Finite 10]"
  "column Sales [sample_df ! 0, sample_df ! 1] = [Finite 100, Finite 50]"
  "column Profit [sample_df ! 0, sample_df ! 1] = [Finite 10, Finite 5]"
  by (simp_all add: sample_df_value column_def)

lemma refund_columns:
  "column Sales refund_df = [Finite 100, Finite (- 25)]"
  "column Profit refund_df = [Finite 10, Finite (- 12)]"
  "column Sales [refund_df ! 0] = [Finite 100]"
  "column Profit [refund_df ! 0] = [Finite 10]"
  by (simp_all add: refund_df_value column_def)


lemma sample_slices:
  "sales_by_region nansum sample_df =
     [(''East'', Finite 100), (''South'', Finite (81 / 2)), (''West'', Finite 50)]"
  by (simp add: sample_df_value sales_by_region_def groupby_sum_def column_def nansum_def)

lemma sample_totals:
  "nansum [Finite 100, Finite 50, Finite (81 / 2)] = Finite (381 / 2)"
  "nansum [Finite 10, Finite 5, Finite (- 12)] = Finite 3"
  "nanmean [Finite 100, Finite 50, Finite (81 / 2)] = Finite (127 / 2)"
  "nansum [Finite 100] = Finite 100"
  "nansum [Finite 10] = Finite 10"
  "nansum [Finite 100, Finite (- 25)] = Finite 75"
  "nansum [Finite 10, Finite (- 12)] = Finite (- 2)"
  "nansum [PosInf] = PosInf"
  by (simp_all add: nansum_def nanmean_def)

subsection \<open>The filter\<close>

text \<open>
  Claim C2. For every data set and every selection of regions and categories, a row of
  the data set is in the filtered view if and only if its Region is one of the selected
  regions and its Category is one of the selected categories.
\<close>

theorem df_selection_membership:
  "(i, r) \<in> set (df_selection df region category) \<longleftrightarrow>
     (i, r) \<in> set df \<and> Region r \<in> set region \<and> Category r \<in> set category"
  by (auto simp: df_selection_def isin_def)

text \<open>
  Claim C3. With the default selection, which is what both widgets return on the first
  render (all distinct Region values and all distinct Category values of the data set),
  the filtered view is the data set itself.
\<close>

theorem default_selection_keeps_all:
  "df_selection df
     (multiselect (unique (column Region df)) (unique (column Region df)) None)
     (multiselect (unique (column Category df)) (unique (column Category df)) None) = df"
  unfolding df_selection_def multiselect_def isin_def
  by (auto simp: set_unique column_def filter_id_conv intro!: rev_image_eqI)

text \<open>
  Claim C10. The filtered view is a subsequence of the data set: its rows are rows of the
  data set, unchanged and in the same relative order, and when the index labels of the
  data set are distinct (as they are after loading) no row occurs twice in the view.
\<close>

theorem view_is_subsequence:
  "subseq (df_selection df region category) df \<and>
   (distinct (map fst df) \<longrightarrow> distinct (map fst (df_selection df region category)))"
  by (simp add: df_selection_def distinct_map_filter)

theorem view_is_subsequence_witness:
  "distinct (map fst sample_df) \<and>
   subseq (df_selection sample_df [Some ''East'', Some ''South''] [Some ''Furniture'']) sample_df \<and>
   distinct (map fst (df_selection sample_df [Some ''East'', Some ''South''] [Some ''Furniture''])) \<and>
   map fst (df_selection sample_df [Some ''East'', Some ''South''] [Some ''Furniture'']) = [0, 4]"
proof -
  have h: "distinct (map fst sample_df)"
    unfolding sample_df_def by (rule distinct_loaded)
  have v: "map fst (df_selection sample_df [Some ''East'', Some ''South''] [Some ''Furniture''])
      = [0, 4]"
    by (simp add: sample_df_value df_selection_def isin_def)
  from view_is_subsequence [of sample_df "[Some ''East'', Some ''South'']" "[Some ''Furniture'']"] h v
  show ?thesis by blast
qed

subsection \<open>The loader\<close>

text \<open>
  Claim C4. When the file can be read, the data set the loader returns consists of
  exactly the input lines whose Order Date parses, in their order: the labels kept are
  those of the lines with a parseable date, the row with label \<open>i\<close> has the parsed date of
  line \<open>i\<close> and every other cell of line \<open>i\<close> unchanged, and the size of the data set is
  the number of lines minus the number of lines with an unparseable date.
\<close>

theorem load_data_keeps_parsed_rows:
  assumes "fs path = Parsed rows"
  shows "\<exists>df. load_data to_datetime fs path = ([], Some df)
     \<and> map fst df =
         filter (\<lambda>i. to_datetime (Order_Date (rows ! i)) \<noteq> None) [0..<length rows]
     \<and> (\<forall>(i, r) \<in> set df.
           Order_Date r = to_datetime (Order_Date (rows ! i)) \<and> Order_Date r \<noteq> None
           \<and> Region r = Region (rows ! i) \<and> Category r = Category (rows ! i)
           \<and> Sub_Category r = Sub_Category (rows ! i)
           \<and> Sales r = Sales (rows ! i) \<and> Profit r = Profit (rows ! i)
           \<and> row.more r = row.more (rows ! i))
     \<and> int (length df) =
         int (length rows) - int (length (filter (\<lambda>r. to_datetime (Order_Date r) = None) rows))"
proof -
  let ?df = "dropna (convert_dates to_datetime (range_index rows))"
  have l: "load_data to_datetime fs path = ([], Some ?df)"
    using assms by (simp add: load_data_def read_csv_def)
  have f: "map fst ?df =
      filter (\<lambda>i. to_datetime (Order_Date (rows ! i)) \<noteq> None) [0..<length rows]"
    by (rule loaded_labels)
  have m: "\<forall>(i, r) \<in> set ?df.
           Order_Date r = to_datetime (Order_Date (rows ! i)) \<and> Order_Date r \<noteq> None
           \<and> Region r = Region (rows ! i) \<and> Category r = Category (rows ! i)
           \<and> Sub_Category r = Sub_Category (rows ! i)
           \<and> Sales r = Sales (rows ! i) \<and> Profit r = Profit (rows ! i)
           \<and> row.more r = row.more (rows ! i)"
  proof (intro ballI, clarify)
    fix i r assume "(i, r) \<in> set ?df"
    then have "r = coerce_row to_datetime (rows ! i)"
      and "to_datetime (Order_Date (rows ! i)) \<noteq> None"
      using loaded_row [of i r to_datetime rows] by simp_all
    then show "Order_Date r = to_datetime (Order_Date (rows ! i)) \<and> Order_Date r \<noteq> None
           \<and> Region r = Region (rows ! i) \<and> Category r = Category (rows ! i)
           \<and> Sub_Category r = Sub_Category (rows ! i)
           \<and> Sales r = Sales (rows ! i) \<and> Profit r = Profit (rows ! i)
           \<and> row.more r = row.more (rows ! i)"
      by (simp add: coerce_row_def)
  qed
  have "length ?df = length (map fst ?df)" by simp
  also have "\<dots> = length (filter (\<lambda>r. to_datetime (Order_Date r) \<noteq> None) rows)"
    unfolding f by (rule length_good_rows)
  finally have "length ?df + length (filter (\<lambda>r. \<not> to_datetime (Order_Date r) \<noteq> None) rows)
      = length rows"
    using sum_length_filter_compl [of "\<lambda>r. to_datetime (Order_Date r) \<noteq> None" rows] by simp
  then have c: "int (length ?df) =
      int (length rows) - int (length (filter (\<lambda>r. to_datetime (Order_Date r) = None) rows))"
    by simp
  from l f m c show ?thesis by blast
qed

theorem load_data_keeps_parsed_rows_witness:
  "sample_fs ''superstore_sales.csv'' = Parsed sample_rows \<and>
   load_data strptime_mdY sample_fs ''superstore_sales.csv'' = ([], Some sample_df) \<and>
   map fst sample_df = [0, 2, 4] \<and>
   map (Region \<circ> snd) sample_df = [Some ''East'', Some ''West'', Some ''South''] \<and>
   map (Sales \<circ> snd) sample_df = [Finite 100, Finite 50, Finite (81 / 2)] \<and>
   map (Order_Date \<circ> snd) sample_df = [Some (2020, 1, 1), Some (2020, 2, 2), Some (2021, 11, 5)] \<and>
   length (filter (\<lambda>r. strptime_mdY (Order_Date r) = None) sample_rows) = 2 \<and>
   (\<exists>df. load_data strptime_mdY sample_fs ''superstore_sales.csv'' = ([], Some df)
     \<and> map fst df =
         filter (\<lambda>i. strptime_mdY (Order_Date (sample_rows ! i)) \<noteq> None) [0..<length sample_rows]
     \<and> (\<forall>(i, r) \<in> set df.
           Order_Date r = strptime_mdY (Order_Date (sample_rows ! i)) \<and> Order_Date r \<noteq> None
           \<and> Region r = Region (sample_rows ! i) \<and> Category r = Category (sample_rows ! i)
           \<and> Sub_Category r = Sub_Category (sample_rows ! i)
           \<and> Sales r = Sales (sample_rows ! i) \<and> Profit r = Profit (sample_rows ! i)
           \<and> row.more r = row.more (sample_rows ! i))
     \<and> int (length df) =
         int (length sample_rows)
         - int (length (filter (\<lambda>r. strptime_mdY (Order_Date r) = None) sample_rows)))"
proof -
  have h: "sample_fs ''superstore_sales.csv'' = Parsed sample_rows"
    by (simp add: sample_fs_def)
  have l: "load_data strptime_mdY sample_fs ''superstore_sales.csv'' = ([], Some sample_df)"
    using h by (simp add: load_data_def read_csv_def sample_df_def)
  have n: "map fst sample_df = [0, 2, 4]"
    and r: "map (Region \<circ> snd) sample_df = [Some ''East'', Some ''West'', Some ''South'']"
    and s: "map (Sales \<circ> snd) sample_df = [Finite 100, Finite 50, Finite (81 / 2)]"
    and d: "map (Order_Date \<circ> snd) sample_df
      = [Some (2020, 1, 1), Some (2020, 2, 2), Some (2021, 11, 5)]"
    by (simp_all add: sample_df_value)
  have b: "length (filter (\<lambda>r. strptime_mdY (Order_Date r) = None) sample_rows) = 2"
    by (simp add: sample_rows_def sample_dates)
  from load_data_keeps_parsed_rows [where fs = sample_fs and path = "''superstore_sales.csv''"
      and rows = sample_rows and to_datetime = strptime_mdY, OF h] h l n r s d b
  show ?thesis by blast
qed

subsection \<open>Key figures\<close>




text \<open>
  Claim C1, as amended. When the selection is widened, Total Sales does not decrease
  provided the library's sums of the Sales column are exact on both views and no row of
  the wider view has a negative Sales value; Total Profit does not decrease under the
  same conditions on the Profit column.
\<close>

theorem totals_monotone_when_nonnegative:
  assumes "set region1 \<subseteq> set region2" and "set category1 \<subseteq> set category2"
  shows
    "(exact_on series_sum (column Sales (df_selection df region1 category1))
        \<and> exact_on series_sum (column Sales (df_selection df region2 category2))
        \<and> (\<forall>(i, r) \<in> set (df_selection df region2 category2). fle (Finite 0) (Sales r))
      \<longrightarrow> (\<exists>t1 t2. total_sales series_sum (df_selection df region1 category1) = Inr t1
             \<and> total_sales series_sum (df_selection df region2 category2) = Inr t2
             \<and> t1 \<le> t2))
     \<and> (exact_on series_sum (column Profit (df_selection df region1 category1))
        \<and> exact_on series_sum (column Profit (df_selection df region2 category2))
        \<and> (\<forall>(i, r) \<in> set (df_selection df region2 category2). fle (Finite 0) (Profit r))
      \<longrightarrow> (\<exists>t1 t2. total_profit series_sum (df_selection df region1 category1) = Inr t1
             \<and> total_profit series_sum (df_selection df region2 category2) = Inr t2
             \<and> t1 \<le> t2))"
proof -
  have nn: "\<And>v. fle (Finite 0) v \<Longrightarrow> 0 \<le> amount v"
  proof -
    fix v assume "fle (Finite 0) v" then show "0 \<le> amount v" by (cases v) simp_all
  qed
  have m: "\<And>c :: ('a, 'b) row_scheme \<Rightarrow> float64.
      (\<forall>(i, r) \<in> set (df_selection df region2 category2). fle (Finite 0) (c r)) \<Longrightarrow>
      sum_list (map amount (column c (df_selection df region1 category1)))
        \<le> sum_list (map amount (column c (df_selection df region2 category2)))"
    unfolding column_def df_selection_def map_map
    by (rule sum_list_filter_mono) (use assms nn in \<open>auto simp: isin_def\<close>)
  have g: "\<And>c :: ('a, 'b) row_scheme \<Rightarrow> float64.
      exact_on series_sum (column c (df_selection df region1 category1)) \<Longrightarrow>
      exact_on series_sum (column c (df_selection df region2 category2)) \<Longrightarrow>
      (\<forall>(i, r) \<in> set (df_selection df region2 category2). fle (Finite 0) (c r)) \<Longrightarrow>
      \<exists>t1 t2. py_int (series_sum (column c (df_selection df region1 category1))) = Inr t1
         \<and> py_int (series_sum (column c (df_selection df region2 category2))) = Inr t2
         \<and> t1 \<le> t2"
  proof -
    fix c :: "('a, 'b) row_scheme \<Rightarrow> float64"
    assume e1: "exact_on series_sum (column c (df_selection df region1 category1))"
      and e2: "exact_on series_sum (column c (df_selection df region2 category2))"
      and n: "\<forall>(i, r) \<in> set (df_selection df region2 category2). fle (Finite 0) (c r)"
    from e1 e2 m [OF n] show "\<exists>t1 t2.
        py_int (series_sum (column c (df_selection df region1 category1))) = Inr t1
         \<and> py_int (series_sum (column c (df_selection df region2 category2))) = Inr t2
         \<and> t1 \<le> t2"
      by (simp add: exact_on_def truncate_mono)
  qed
  show ?thesis
    unfolding total_sales_def total_profit_def
    by (intro conjI impI; elim conjE) (rule g, assumption+)+
qed

theorem totals_monotone_when_nonnegative_witness:
  "set [Some ''East''] \<subseteq> set [Some ''East'', Some ''West''] \<and>
   set [Some ''Furniture''] \<subseteq> set [Some ''Furniture'', Some ''Office''] \<and>
   df_selection sample_df [Some ''East''] [Some ''Furniture''] \<noteq> [] \<and>
   exact_on nansum (column Sales (df_selection sample_df [Some ''East''] [Some ''Furniture''])) \<and>
   exact_on nansum (column Sales (df_selection sample_df [Some ''East'', Some ''West'']
     [Some ''Furniture'', Some ''Office''])) \<and>
   exact_on nansum (column Profit (df_selection sample_df [Some ''East''] [Some ''Furniture''])) \<and>
   exact_on nansum (column Profit (df_selection sample_df [Some ''East'', Some ''West'']
     [Some ''Furniture'', Some ''Office''])) \<and>
   list_all (\<lambda>(i, r). fle (Finite 0) (Sales r) \<and> fle (Finite 0) (Profit r))
     (df_selection sample_df [Some ''East'', Some ''West''] [Some ''Furniture'', Some ''Office'']) \<and>
   total_sales nansum (df_selection sample_df [Some ''East''] [Some ''Furniture'']) = Inr 100 \<and>
   total_sales nansum (df_selection sample_df [Some ''East'', Some ''West'']
     [Some ''Furniture'', Some ''Office'']) = Inr 150 \<and>
   total_profit nansum (df_selection sample_df [Some ''East''] [Some ''Furniture'']) = Inr 10 \<and>
   total_profit nansum (df_selection sample_df [Some ''East'', Some ''West'']
     [Some ''Furniture'', Some ''Office'']) = Inr 15 \<and>
   (\<exists>t1 t2. total_sales nansum (df_selection sample_df [Some ''East''] [Some ''Furniture'']) = Inr t1
      \<and> total_sales nansum (df_selection sample_df [Some ''East'', Some ''West'']
           [Some ''Furniture'', Some ''Office'']) = Inr t2 \<and> t1 \<le> t2) \<and>
   (\<exists>t1 t2. total_profit nansum (df_selection sample_df [Some ''East''] [Some ''Furniture'']) = Inr t1
      \<and> total_profit nansum (df_selection sample_df [Some ''East'', Some ''West'']
           [Some ''Furniture'', Some ''Office'']) = Inr t2 \<and> t1 \<le> t2)"
proof -
  let ?v1 = "df_selection sample_df [Some ''East''] [Some ''Furniture'']"
  let ?v2 = "df_selection sample_df [Some ''East'', Some ''West''] [Some ''Furniture'', Some ''Office'']"
  have r: "set [Some ''East''] \<subseteq> set [Some ''East'', Some ''West'']" by simp
  have c: "set [Some ''Furniture''] \<subseteq> set [Some ''Furniture'', Some ''Office'']" by simp
  have ne: "?v1 \<noteq> []" unfolding sample_views by simp
  have e1: "exact_on nansum (column Sales ?v1)"
    and e2: "exact_on nansum (column Sales ?v2)"
    and e3: "exact_on nansum (column Profit ?v1)"
    and e4: "exact_on nansum (column Profit ?v2)"
    unfolding sample_views sample_columns by (rule nansum_exact, simp)+
  have nn: "list_all (\<lambda>(i, r). fle (Finite 0) (Sales r) \<and> fle (Finite 0) (Profit r)) ?v2"
    unfolding sample_views by (simp add: sample_df_value)
  then have ns: "\<forall>(i, r) \<in> set ?v2. fle (Finite 0) (Sales r)"
    and np: "\<forall>(i, r) \<in> set ?v2. fle (Finite 0) (Profit r)"
    by (auto simp: list_all_iff)
  have t1: "total_sales nansum ?v1 = Inr 100"
    and t2: "total_sales nansum ?v2 = Inr 150"
    and u1: "total_profit nansum ?v1 = Inr 10"
    and u2: "total_profit nansum ?v2 = Inr 15"
    unfolding sample_views total_sales_def total_profit_def sample_columns
    by (simp_all add: nansum_def truncate_values)
  from totals_monotone_when_nonnegative [OF r c, of nansum sample_df] e1 e2 e3 e4 ns np
  have "(\<exists>t1 t2. total_sales nansum ?v1 = Inr t1 \<and> total_sales nansum ?v2 = Inr t2 \<and> t1 \<le> t2)"
    and "(\<exists>t1 t2. total_profit nansum ?v1 = Inr t1 \<and> total_profit nansum ?v2 = Inr t2 \<and> t1 \<le> t2)"
    by blast+
  with r c ne e1 e2 e3 e4 nn t1 t2 u1 u2 show ?thesis by blast
qed

text \<open>
  Claim C1 as stated fails in both halves: a refund, a row with negative Sales and
  negative Profit, that the wider selection adds lowers Total Sales from 100 to 75 and
  Total Profit from 10 to -2.
\<close>

theorem totals_not_monotone:
  "set [Some ''East''] \<subseteq> set [Some ''East'', Some ''South''] \<and>
   set [Some ''Furniture''] \<subseteq> set [Some ''Furniture''] \<and>
   total_sales nansum (df_selection refund_df [Some ''East''] [Some ''Furniture'']) = Inr 100 \<and>
   total_sales nansum (df_selection refund_df [Some ''East'', Some ''South''] [Some ''Furniture''])
     = Inr 75 \<and>
   total_profit nansum (df_selection refund_df [Some ''East''] [Some ''Furniture'']) = Inr 10 \<and>
   total_profit nansum (df_selection refund_df [Some ''East'', Some ''South''] [Some ''Furniture''])
     = Inr (- 2) \<and>
   \<not> (100 :: int) \<le> 75 \<and> \<not> (10 :: int) \<le> - 2"
  unfolding refund_views total_sales_def total_profit_def refund_columns
  by (simp add: sample_totals truncate_values)

subsection \<open>Charts\<close>



text \<open>
  Claim C7, as amended. For a filtered view in which no Region is missing and on which
  the library's sums are exact, the slice values of the Region chart sum to the sum of
  the Sales column, and Total Sales is that sum with its fractional part dropped.
\<close>

theorem pie_slices_sum:
  assumes "\<forall>(i, r) \<in> set sel. Region r \<noteq> None"
    and "\<forall>k. Some k \<in> set (column Region sel) \<longrightarrow>
           exact_on group_sum (column Sales (filter (\<lambda>(i, r). Region r = Some k) sel))"
    and "exact_on series_sum (column Sales sel)"
  shows "\<exists>vs. map snd (sales_by_region group_sum sel) = map Finite vs
     \<and> sum_list vs = sum_list (map amount (column Sales sel))
     \<and> total_sales series_sum sel = Inr (truncate (sum_list vs))"
proof -
  let ?ks = "sort (remdups (present (column Region sel)))"
  let ?vs = "map (\<lambda>k. sum_list (map amount (column Sales (filter (\<lambda>(i, r). Region r = Some k) sel)))) ?ks"
  have "\<And>k. k \<in> set ?ks \<Longrightarrow>
      group_sum (column Sales (filter (\<lambda>(i, r). Region r = Some k) sel))
      = Finite (sum_list (map amount (column Sales (filter (\<lambda>(i, r). Region r = Some k) sel))))"
    using assms(2) by (simp add: set_present exact_on_def)
  then have a: "map snd (sales_by_region group_sum sel) = map Finite ?vs"
    by (simp add: sales_by_region_def groupby_sum_def comp_def)
  have b: "sum_list ?vs = sum_list (map amount (column Sales sel))"
    using assms(1) by (rule group_amounts_total)
  have c: "total_sales series_sum sel = Inr (truncate (sum_list ?vs))"
    using assms(3) unfolding b by (simp add: total_sales_def exact_on_def)
  from a b c show ?thesis by blast
qed

theorem pie_slices_sum_witness:
  "list_all (\<lambda>(i, r). Region r \<noteq> None) sample_df \<and>
   list_all is_finite (column Sales sample_df) \<and>
   exact_on nansum (column Sales sample_df) \<and>
   map snd (sales_by_region nansum sample_df) = map Finite [100, 81 / 2, 50] \<and>
   sum_list [100, 81 / 2, 50 :: rat] = sum_list (map amount (column Sales sample_df)) \<and>
   total_sales nansum sample_df = Inr 190"
proof -
  have a: "list_all (\<lambda>(i, r). Region r \<noteq> None) sample_df" by (simp add: sample_df_value)
  then have a': "\<forall>(i, r) \<in> set sample_df. Region r \<noteq> None" by (simp only: list_all_iff)
  have f: "list_all is_finite (column Sales sample_df)" by (simp add: sample_columns)
  have g: "\<forall>k. Some k \<in> set (column Region sample_df) \<longrightarrow>
      exact_on nansum (column Sales (filter (\<lambda>(i, r). Region r = Some k) sample_df))"
  proof (intro allI impI)
    fix k
    have "list_all is_finite (column Sales (filter (\<lambda>(i, r). Region r = Some k) sample_df))"
      using f by (auto simp: list_all_iff column_def)
    then show "exact_on nansum (column Sales (filter (\<lambda>(i, r). Region r = Some k) sample_df))"
      by (rule nansum_exact)
  qed
  have e: "exact_on nansum (column Sales sample_df)" using f by (rule nansum_exact)
  from pie_slices_sum [OF a' g e] obtain vs
    where v: "map snd (sales_by_region nansum sample_df) = map Finite vs"
      and s: "sum_list vs = sum_list (map amount (column Sales sample_df))"
      and t: "total_sales nansum sample_df = Inr (truncate (sum_list vs))"
    by blast
  from v have vs: "vs = [100, 81 / 2, 50]"
    unfolding sample_slices by (auto simp: map_eq_Cons_conv)
  from a f e v s t show ?thesis unfolding vs by (simp add: truncate_values)
qed

text \<open>
  Claim C7 as stated fails: Total Sales is truncated and the slices are not, so the two
  differ whenever the sum of the Sales has a fractional part (190.5 against 190 in the
  sample data).
\<close>

theorem pie_total_not_total_sales:
  "df_selection sample_df [Some ''East'', Some ''West'', Some ''South'']
     [Some ''Furniture'', Some ''Office''] = sample_df \<and>
   sample_df \<noteq> [] \<and>
   map snd (sales_by_region nansum sample_df) = [Finite 100, Finite (81 / 2), Finite 50] \<and>
   total_sales nansum sample_df = Inr 190 \<and>
   (100 + 81 / 2 + 50 :: rat) \<noteq> of_int 190"
proof -
  have n: "sample_df \<noteq> []" by (simp add: sample_df_value)
  have a: "map snd (sales_by_region nansum sample_df) = [Finite 100, Finite (81 / 2), Finite 50]"
    by (simp add: sample_slices)
  have b: "total_sales nansum sample_df = Inr 190"
    by (simp add: total_sales_def sample_columns sample_totals truncate_values)
  show ?thesis using n a b sample_views(4) by simp
qed

subsection \<open>Halting\<close>

text \<open>
  Claim C8. When the filtered view is empty the page ends with the warning: after the
  sidebar nothing but the warning is shown, so no key figure, chart or table is computed
  from an empty view.
\<close>

theorem empty_view_halts:
  assumes "fs ''superstore_sales.csv'' = Parsed rows"
    and "df = dropna (convert_dates to_datetime (range_index rows))"
    and "df_selection df
           (multiselect (unique (column Region df)) (unique (column Region df)) region_input)
           (multiselect (unique (column Category df)) (unique (column Category df)) category_input) = []"
  shows "render to_datetime series_sum series_mean group_sum fs region_input category_input =
     [PageConfig, Style, SidebarHeader ''Dashboard Filters'',
      Multiselect ''Select Region:'' (unique (column Region df)) (unique (column Region df)),
      Multiselect ''Select Category:'' (unique (column Category df)) (unique (column Category df)),
      Warning empty_warning]"
proof -
  have l: "load_data to_datetime fs ''superstore_sales.csv'' = ([], Some df)"
    using assms(1,2) by (simp add: load_data_def read_csv_def)
  have d: "dashboard series_sum series_mean group_sum df region_input category_input =
     [Style, SidebarHeader ''Dashboard Filters'',
      Multiselect ''Select Region:'' (unique (column Region df)) (unique (column Region df)),
      Multiselect ''Select Category:'' (unique (column Category df)) (unique (column Category df)),
      Warning empty_warning]"
    unfolding dashboard_def Let_def assms(3) by simp
  show ?thesis unfolding render_def l by (simp add: d)
qed

theorem empty_view_halts_witness:
  "sample_fs ''superstore_sales.csv'' = Parsed sample_rows \<and>
   df_selection sample_df
     (multiselect (unique (column Region sample_df)) (unique (column Region sample_df)) (Some []))
     (multiselect (unique (column Category sample_df)) (unique (column Category sample_df)) None) = [] \<and>
   render strptime_mdY nansum nanmean nansum sample_fs (Some []) None =
     [PageConfig, Style, SidebarHeader ''Dashboard Filters'',
      Multiselect ''Select Region:'' (unique (column Region sample_df)) (unique (column Region sample_df)),
      Multiselect ''Select Category:'' (unique (column Category sample_df)) (unique (column Category sample_df)),
      Warning empty_warning]"
proof -
  have h: "sample_fs ''superstore_sales.csv'' = Parsed sample_rows"
    by (simp add: sample_fs_def)
  have e: "df_selection sample_df
     (multiselect (unique (column Region sample_df)) (unique (column Region sample_df)) (Some []))
     (multiselect (unique (column Category sample_df)) (unique (column Category sample_df)) None) = []"
    by (simp add: df_selection_def multiselect_def isin_def)
  from empty_view_halts [where fs = sample_fs and rows = sample_rows and to_datetime = strptime_mdY
      and df = sample_df and region_input = "Some []" and category_input = None
      and series_sum = nansum and series_mean = nanmean and group_sum = nansum,
      OF h sample_df_def e]
    h e
  show ?thesis by blast
qed

text \<open>
  Claim C9. When the file is missing the loader reports an error naming the path, and
  when reading fails in any other way it reports an error that ends with the message of
  the exception; in both cases it returns no data set and the page ends with the error,
  before the sidebar.
\<close>

theorem load_failure_halts:
  "(fs path = FileNotFoundError \<longrightarrow>
      load_data to_datetime fs path = ([Error (not_found_message path)], None))
   \<and> (fs path = Exception e \<longrightarrow>
      load_data to_datetime fs path = ([Error (load_error_message e)], None)
      \<and> suffix e (load_error_message e))
   \<and> (fs ''superstore_sales.csv'' = FileNotFoundError \<longrightarrow>
      render to_datetime series_sum series_mean group_sum fs region_input category_input =
        [PageConfig, Error (not_found_message ''superstore_sales.csv'')])
   \<and> (fs ''superstore_sales.csv'' = Exception e \<longrightarrow>
      render to_datetime series_sum series_mean group_sum fs region_input category_input =
        [PageConfig, Error (load_error_message e)])"
  by (simp add: load_data_def read_csv_def render_def load_error_message_def suffix_def)

theorem load_failure_halts_witness:
  "sample_fs ''missing.csv'' = FileNotFoundError \<and>
   load_data strptime_mdY sample_fs ''missing.csv'' =
     ([Error (not_found_message ''missing.csv'')], None) \<and>
   missing_fs ''superstore_sales.csv'' = FileNotFoundError \<and>
   render strptime_mdY nansum nanmean nansum missing_fs None None =
     [PageConfig, Error (not_found_message ''superstore_sales.csv'')] \<and>
   broken_fs ''superstore_sales.csv'' = Exception ''Error tokenizing data'' \<and>
   load_data strptime_mdY broken_fs ''superstore_sales.csv'' =
     ([Error (load_error_message ''Error tokenizing data'')], None) \<and>
   render strptime_mdY nansum nanmean nansum broken_fs None None =
     [PageConfig, Error (load_error_message ''Error tokenizing data'')]"
proof -
  have a: "sample_fs ''missing.csv'' = FileNotFoundError" by (simp add: sample_fs_def)
  have b: "broken_fs ''superstore_sales.csv'' = Exception ''Error tokenizing data''"
    by (simp add: broken_fs_def)
  have c: "missing_fs ''superstore_sales.csv'' = FileNotFoundError"
    by (simp add: missing_fs_def)
  from load_failure_halts [where fs = sample_fs and path = "''missing.csv''"
      and to_datetime = strptime_mdY] a
  have 1: "load_data strptime_mdY sample_fs ''missing.csv'' =
     ([Error (not_found_message ''missing.csv'')], None)"
    by blast
  from load_failure_halts [where fs = broken_fs and path = "''superstore_sales.csv''"
      and e = "''Error tokenizing data''" and to_datetime = strptime_mdY
      and series_sum = nansum and series_mean = nanmean and group_sum = nansum
      and region_input = None and category_input = None] b
  have 2: "load_data strptime_mdY broken_fs ''superstore_sales.csv'' =
     ([Error (load_error_message ''Error tokenizing data'')], None)"
    and 3: "render strptime_mdY nansum nanmean nansum broken_fs None None =
     [PageConfig, Error (load_error_message ''Error tokenizing data'')]"
    by blast+
  from load_failure_halts [where fs = missing_fs and path = "''superstore_sales.csv''"
      and to_datetime = strptime_mdY and series_sum = nansum and series_mean = nanmean
      and group_sum = nansum and region_input = None and category_input = None] c
  have 4: "render strptime_mdY nansum nanmean nansum missing_fs None None =
     [PageConfig, Error (not_found_message ''superstore_sales.csv'')]"
    by blast
  from a b c 1 2 3 4 show ?thesis by blast
qed

end
